theory Spec2Isabelle
  imports Complex_Main "HOL-Library.Sublist"
begin

section \<open>Python values shared by the notebooks\<close>

text \<open>
  The notebooks are Python. An exception that leaves a cell or a function is a value
  \<open>Inl e\<close> of a sum type; a normal return is \<open>Inr v\<close>. Only the exception classes
  that the notebooks raise, catch or can meet at a subscript are told apart, each standing
  for the class with its subclasses (what an \<open>except\<close> clause for it catches);
  everything else a library call may raise is \<open>OtherError\<close>.
\<close>

datatype pyexc = ValueError | KeyError | IndexError | TypeError | OtherError

section \<open>Rule of five (RDKit notebook, \<open>calculate_ro5_properties\<close>)\<close>

text \<open>
  \<^verbatim>\<open>
  def calculate_ro5_properties(molecule):
      molecular_weight = Descriptors.ExactMolWt(molecule)
      n_hba = Descriptors.NumHAcceptors(molecule)
      n_hbd = Descriptors.NumHDonors(molecule)
      logp = Descriptors.MolLogP(molecule)
      TPSA = Descriptors.TPSA (molecule)
      # Check if Ro5 conditions fulfilled
      conditions = [molecular_weight <= 500, n_hba <= 10, n_hbd <= 5, logp <= 5, TPSA < 140]
      ro5_fulfilled = sum(conditions) > 4
      # Return True if no more than one out of four conditions is violated
      return pd.Series([molecular_weight, n_hba, n_hbd, logp, TPSA, ro5_fulfilled], index=[...])
  \<close>
  The five descriptor functions belong to RDKit, not to the repository: they are the
  fields of a record that the function takes as a parameter. Their float results are
  read as the real numbers they denote (no descriptor is NaN), so that the comparisons
  are the order of the reals.
\<close>

record 'm Descriptors =
  ExactMolWt :: "'m \<Rightarrow> real"
  NumHAcceptors :: "'m \<Rightarrow> int"
  NumHDonors :: "'m \<Rightarrow> int"
  MolLogP :: "'m \<Rightarrow> real"
  TPSA :: "'m \<Rightarrow> real"

text \<open>The returned \<open>pd.Series\<close>, one field per index label (\<open>tpsa\<close> is the label \<open>TPSA\<close>).\<close>

record ro5_series =
  molecular_weight :: real
  n_hba :: int
  n_hbd :: int
  logp :: real
  tpsa :: real
  ro5_fulfilled :: bool

text \<open>The local list \<open>conditions\<close>.\<close>

definition conditions :: "'m Descriptors \<Rightarrow> 'm \<Rightarrow> bool list" where
  "conditions D molecule =
     [ExactMolWt D molecule \<le> 500, NumHAcceptors D molecule \<le> 10,
      NumHDonors D molecule \<le> 5, MolLogP D molecule \<le> 5, TPSA D molecule < 140]"

text \<open>Python's \<open>sum\<close> over a list of booleans counts the \<open>True\<close> entries.\<close>

definition sum_bools :: "bool list \<Rightarrow> nat" where
  "sum_bools bs = sum_list (map of_bool bs)"

definition calculate_ro5_properties :: "'m Descriptors \<Rightarrow> 'm \<Rightarrow> ro5_series" where
  "calculate_ro5_properties D molecule =
     \<lparr>molecular_weight = ExactMolWt D molecule,
      n_hba = NumHAcceptors D molecule,
      n_hbd = NumHDonors D molecule,
      logp = MolLogP D molecule,
      tpsa = TPSA D molecule,
      ro5_fulfilled = (sum_bools (conditions D molecule) > 4)\<rparr>"

text \<open>
  Hexadecane, \<open>CCCCCCCCCCCCCCCC\<close>: light, no hydrogen-bond donor or acceptor, no polar
  surface, and a Crippen logP above 5. The descriptor values are those of this molecule.
\<close>

definition hexadecane :: string where
  "hexadecane = ''CCCCCCCCCCCCCCCC''"

definition hexadecane_descriptors :: "string Descriptors" where
  "hexadecane_descriptors =
     \<lparr>ExactMolWt = (\<lambda>_. 226.27), NumHAcceptors = (\<lambda>_. 0), NumHDonors = (\<lambda>_. 0),
      MolLogP = (\<lambda>_. 6.49), TPSA = (\<lambda>_. 0)\<rparr>"

section \<open>Shape screening (RDKit notebook, \<open>embed_optimize_align_molecule\<close>)\<close>

text \<open>
  \<^verbatim>\<open>
  def embed_optimize_align_molecule(mol, query, num_conformers = 2):
    mol = Chem.AddHs(mol)
    AllChem.EmbedMultipleConfs(mol, numConfs=num_conformers, params=AllChem.ETKDG())
    AllChem.MMFFOptimizeMoleculeConfs(mol)  # Corrected to optimize all conformers
    scores = []
    for cid in range(mol.GetNumConformers()):
        try:
          O3A = AllChem.GetO3A(mol, query, prbCid=cid)  # Get an O3A object for superposition
        except ValueError:
          return None
        # O3A.Align()
        alignment_score = O3A.Align()
        scores.append(alignment_score)
    return np.min(scores)
  \<close>
  Embedding, force-field optimisation and O3A alignment are RDKit's: the function takes
  them as the fields of a record. Each call either raises (\<open>Inl\<close>) or returns; the two
  calls that change the molecule in place return the changed molecule. \<open>Align\<close> moves
  only the conformer it was built for, which no later iteration reads, so the alignment
  calls are functions of the prepared molecule, the query and the conformer id.
  Scores are the reals the floats denote (no score is NaN).
\<close>

record ('m, 'o) rdkit =
  AddHs :: "'m \<Rightarrow> pyexc + 'm"
  EmbedMultipleConfs :: "'m \<Rightarrow> nat \<Rightarrow> pyexc + 'm"
  MMFFOptimizeMoleculeConfs :: "'m \<Rightarrow> pyexc + 'm"
  GetNumConformers :: "'m \<Rightarrow> nat"
  GetO3A :: "'m \<Rightarrow> 'm \<Rightarrow> nat \<Rightarrow> pyexc + 'o"
  Align :: "'o \<Rightarrow> pyexc + real"

text \<open>The three statements before the loop: hydrogens, embedding, optimisation.\<close>

definition embed_optimize :: "('m, 'o) rdkit \<Rightarrow> 'm \<Rightarrow> nat \<Rightarrow> pyexc + 'm" where
  "embed_optimize L mol num_conformers =
     (case AddHs L mol of
        Inl e \<Rightarrow> Inl e
      | Inr mol1 \<Rightarrow>
          (case EmbedMultipleConfs L mol1 num_conformers of
             Inl e \<Rightarrow> Inl e
           | Inr mol2 \<Rightarrow> MMFFOptimizeMoleculeConfs L mol2))"

text \<open>
  The \<open>for\<close> loop over the conformer ids, with the list \<open>scores\<close> as accumulator.
  \<open>Inr None\<close> is the early \<open>return None\<close> of the \<open>except ValueError\<close> branch; any
  other exception of \<open>GetO3A\<close>, and every exception of \<open>Align\<close> (it is outside the
  \<open>try\<close>), leaves the function.
\<close>

fun align_conformers ::
  "('m, 'o) rdkit \<Rightarrow> 'm \<Rightarrow> 'm \<Rightarrow> nat list \<Rightarrow> real list \<Rightarrow> pyexc + real list option" where
  "align_conformers L mol query [] scores = Inr (Some scores)"
| "align_conformers L mol query (cid # cids) scores =
     (case GetO3A L mol query cid of
        Inl e \<Rightarrow> (if e = ValueError then Inr None else Inl e)
      | Inr O3A \<Rightarrow>
          (case Align L O3A of
             Inl e \<Rightarrow> Inl e
           | Inr alignment_score \<Rightarrow>
               align_conformers L mol query cids (scores @ [alignment_score])))"

text \<open>\<open>np.min\<close> raises \<open>ValueError\<close> on an empty sequence.\<close>

definition np_min :: "real list \<Rightarrow> pyexc + real" where
  "np_min scores = (case scores of [] \<Rightarrow> Inl ValueError | s # ss \<Rightarrow> Inr (fold min ss s))"

definition embed_optimize_align_molecule ::
  "('m, 'o) rdkit \<Rightarrow> 'm \<Rightarrow> 'm \<Rightarrow> nat \<Rightarrow> pyexc + real option" where
  "embed_optimize_align_molecule L mol query num_conformers =
     (case embed_optimize L mol num_conformers of
        Inl e \<Rightarrow> Inl e
      | Inr molH \<Rightarrow>
          (case align_conformers L molH query [0..<GetNumConformers L molH] [] of
             Inl e \<Rightarrow> Inl e
           | Inr None \<Rightarrow> Inr None
           | Inr (Some scores) \<Rightarrow>
               (case np_min scores of Inl e \<Rightarrow> Inl e | Inr s \<Rightarrow> Inr (Some s))))"

text \<open>
  \<open>Series.progress_apply\<close> calls the function on each element in order and collects the
  results; an exception raised by one call ends the whole pass.
  \<^verbatim>\<open>
  dataset['ShapeSimilarity'] = dataset['rdkitmol'].progress_apply(
      lambda x: embed_optimize_align_molecule(x, query_h, num_conformers=2))
  \<close>
\<close>

fun progress_apply :: "('a \<Rightarrow> pyexc + 'b) \<Rightarrow> 'a list \<Rightarrow> pyexc + 'b list" where
  "progress_apply f [] = Inr []"
| "progress_apply f (x # xs) =
     (case f x of
        Inl e \<Rightarrow> Inl e
      | Inr y \<Rightarrow> (case progress_apply f xs of Inl e \<Rightarrow> Inl e | Inr ys \<Rightarrow> Inr (y # ys)))"

definition shape_similarity ::
  "('m, 'o) rdkit \<Rightarrow> 'm \<Rightarrow> 'm list \<Rightarrow> pyexc + real option list" where
  "shape_similarity L query_h rdkitmol =
     progress_apply (\<lambda>x. embed_optimize_align_molecule L x query_h 2) rdkitmol"

text \<open>
  Vocabulary for the theorems. Conformer \<open>cid\<close> is aligned when both \<open>GetO3A\<close> and
  \<open>Align\<close> return, and \<open>score\<close> is then the value \<open>Align\<close> returned. The alignment
  fails at \<open>cid\<close> when the loop reaches it (all earlier conformers were aligned) and
  \<open>GetO3A\<close> raises \<open>ValueError\<close> there. The alignment step fails at \<open>cid\<close> when the
  loop reaches it and either call raises, whatever the exception.
\<close>

definition aligned :: "('m, 'o) rdkit \<Rightarrow> 'm \<Rightarrow> 'm \<Rightarrow> nat \<Rightarrow> bool" where
  "aligned L mol query cid =
     (case GetO3A L mol query cid of
        Inl e \<Rightarrow> False
      | Inr O3A \<Rightarrow> (case Align L O3A of Inl e \<Rightarrow> False | Inr s \<Rightarrow> True))"

definition score :: "('m, 'o) rdkit \<Rightarrow> 'm \<Rightarrow> 'm \<Rightarrow> nat \<Rightarrow> real" where
  "score L mol query cid =
     (case GetO3A L mol query cid of
        Inl e \<Rightarrow> 0
      | Inr O3A \<Rightarrow> (case Align L O3A of Inl e \<Rightarrow> 0 | Inr s \<Rightarrow> s))"

definition alignment_fails :: "('m, 'o) rdkit \<Rightarrow> 'm \<Rightarrow> 'm \<Rightarrow> nat \<Rightarrow> bool" where
  "alignment_fails L mol query cid \<longleftrightarrow>
     cid < GetNumConformers L mol \<and> GetO3A L mol query cid = Inl ValueError \<and>
     list_all (aligned L mol query) [0..<cid]"

definition alignment_step_fails :: "('m, 'o) rdkit \<Rightarrow> 'm \<Rightarrow> 'm \<Rightarrow> nat \<Rightarrow> bool" where
  "alignment_step_fails L mol query cid \<longleftrightarrow>
     cid < GetNumConformers L mol \<and> \<not> aligned L mol query cid \<and>
     list_all (aligned L mol query) [0..<cid]"

text \<open>
  A small library for concrete runs: molecules are numbers, every molecule gets two
  conformers, and \<open>GetO3A\<close> rejects the second conformer of molecule 7.
\<close>

definition example_rdkit :: "(nat, nat) rdkit" where
  "example_rdkit =
     \<lparr>AddHs = Inr, EmbedMultipleConfs = (\<lambda>m k. Inr m), MMFFOptimizeMoleculeConfs = Inr,
      GetNumConformers = (\<lambda>m. 2),
      GetO3A = (\<lambda>m q cid. if m = 7 \<and> cid = 1 then Inl ValueError else Inr (m + cid)),
      Align = (\<lambda>i. Inr (real i))\<rparr>"

text \<open>
  A second library, whose failures are not the one the \<open>try\<close> covers: \<open>Align\<close> raises
  \<open>ValueError\<close> on the second conformer of molecule 7, \<open>GetO3A\<close> raises another
  exception on the first conformer of molecule 8, and molecule 9 gets no conformer.
\<close>

definition raising_rdkit :: "(nat, nat \<times> nat) rdkit" where
  "raising_rdkit =
     \<lparr>AddHs = Inr, EmbedMultipleConfs = (\<lambda>m k. Inr m), MMFFOptimizeMoleculeConfs = Inr,
      GetNumConformers = (\<lambda>m. if m = 9 then 0 else 2),
      GetO3A = (\<lambda>m q cid. if m = 8 \<and> cid = 0 then Inl OtherError else Inr (m, cid)),
      Align = (\<lambda>(m, cid). if m = 7 \<and> cid = 1 then Inl ValueError else Inr (real (m + cid)))\<rparr>"

section \<open>PubChem lookups (PubChem notebook)\<close>

text \<open>
  \<^verbatim>\<open>
  name = "ibuprofen"
  url = f"https://pubchem.ncbi.nlm.nih.gov/rest/pug/compound/name/{name}/cids/JSON"
  r = requests.get(url)
  response = r.json()
  if "IdentifierList" in response:
      cid = response["IdentifierList"]["CID"][0]
  else:
      raise ValueError(f"Could not find matches for compound: {name}")
  \<close>
  \<open>response\<close> is whatever JSON document the server sent. A JSON object is the list of
  the items of the Python dict it was parsed into (each key once).
\<close>

datatype json =
  JNull | JBool bool | JNum real | JStr string | JArr "json list" | JObj "(string \<times> json) list"

text \<open>
  Python's \<open>k in x\<close> for a string \<open>k\<close>: key membership in a dict, element membership in
  a list, substring test in a string, \<open>TypeError\<close> elsewhere.
\<close>

fun py_in :: "string \<Rightarrow> json \<Rightarrow> pyexc + bool" where
  "py_in k (JObj d) = Inr (k \<in> fst ` set d)"
| "py_in k (JArr xs) = Inr (JStr k \<in> set xs)"
| "py_in k (JStr s) = Inr (sublist k s)"
| "py_in k _ = Inl TypeError"

text \<open>
  The subscripts \<open>x[k]\<close> with a string key and \<open>x[0]\<close>. A dict parsed from JSON has
  string keys only, so \<open>x[0]\<close> on it is a \<open>KeyError\<close>.
\<close>

fun getitem_str :: "json \<Rightarrow> string \<Rightarrow> pyexc + json" where
  "getitem_str (JObj d) k = (case map_of d k of None \<Rightarrow> Inl KeyError | Some v \<Rightarrow> Inr v)"
| "getitem_str _ k = Inl TypeError"

fun getitem_0 :: "json \<Rightarrow> pyexc + json" where
  "getitem_0 (JArr xs) = (case xs of [] \<Rightarrow> Inl IndexError | x # _ \<Rightarrow> Inr x)"
| "getitem_0 (JStr s) = (case s of [] \<Rightarrow> Inl IndexError | c # _ \<Rightarrow> Inr (JStr [c]))"
| "getitem_0 (JObj d) = Inl KeyError"
| "getitem_0 _ = Inl TypeError"

text \<open>Sequencing: an exception in the first step skips the second.\<close>

definition and_then :: "pyexc + 'a \<Rightarrow> ('a \<Rightarrow> pyexc + 'b) \<Rightarrow> pyexc + 'b" where
  "and_then r f = (case r of Inl e \<Rightarrow> Inl e | Inr v \<Rightarrow> f v)"

text \<open>
  The HTTP library is a parameter: \<open>get url n\<close> is what \<open>requests.get(url)\<close> does when it
  is the \<open>n\<close>-th request the notebook has sent, and \<open>json_of\<close> is \<open>r.json()\<close>. The
  state threaded through a cell is the number of requests sent so far; each cell sends
  one request and has no loop around it.
\<close>

record 'r requests =
  get :: "string \<Rightarrow> nat \<Rightarrow> pyexc + 'r"
  json_of :: "'r \<Rightarrow> pyexc + json"

definition fetch_json :: "'r requests \<Rightarrow> string \<Rightarrow> nat \<Rightarrow> (pyexc + json) \<times> nat" where
  "fetch_json W url n = (and_then (get W url n) (json_of W), Suc n)"

definition cids_url :: "string \<Rightarrow> string" where
  "cids_url name = ''https://pubchem.ncbi.nlm.nih.gov/rest/pug/compound/name/'' @ name @ ''/cids/JSON''"

definition cid_of_response :: "json \<Rightarrow> pyexc + json" where
  "cid_of_response response =
     and_then (py_in ''IdentifierList'' response) (\<lambda>found.
       if found then
         and_then (and_then (getitem_str response ''IdentifierList'')
           (\<lambda>v. getitem_str v ''CID'')) getitem_0
       else Inl ValueError)"

definition cid_by_name :: "'r requests \<Rightarrow> string \<Rightarrow> nat \<Rightarrow> (pyexc + json) \<times> nat" where
  "cid_by_name W name n =
     (case fetch_json W (cids_url name) n of
        (r, n') \<Rightarrow> (and_then r cid_of_response, n'))"

text \<open>
  \<^verbatim>\<open>
  cid ="3672"
  url = f"https://pubchem.ncbi.nlm.nih.gov/rest/pug/compound/cid/{cid}/property/MolecularWeight/JSON"
  r = requests.get(url)
  response = r.json()
  if "PropertyTable" in response:
      mol_weight = response["PropertyTable"]["Properties"][0]["MolecularWeight"]
  else:
      raise ValueError(f"Could not find matches for PubChem CID: {cid}")
  \<close>
\<close>

definition molecular_weight_url :: "string \<Rightarrow> string" where
  "molecular_weight_url cid =
     ''https://pubchem.ncbi.nlm.nih.gov/rest/pug/compound/cid/'' @ cid @ ''/property/MolecularWeight/JSON''"

definition mol_weight_of_response :: "json \<Rightarrow> pyexc + json" where
  "mol_weight_of_response response =
     and_then (py_in ''PropertyTable'' response) (\<lambda>found.
       if found then
         and_then (and_then (and_then (getitem_str response ''PropertyTable'')
           (\<lambda>v. getitem_str v ''Properties'')) getitem_0)
           (\<lambda>v. getitem_str v ''MolecularWeight'')
       else Inl ValueError)"

definition mol_weight_by_cid :: "'r requests \<Rightarrow> string \<Rightarrow> nat \<Rightarrow> (pyexc + json) \<times> nat" where
  "mol_weight_by_cid W cid n =
     (case fetch_json W (molecular_weight_url cid) n of
        (r, n') \<Rightarrow> (and_then r mol_weight_of_response, n'))"

text \<open>
  A server for concrete runs: it knows ibuprofen and CID 3672 and answers every other
  request with a fault document.
\<close>

definition pubchem :: "json requests" where
  "pubchem =
     \<lparr>get = (\<lambda>url n.
        if url = cids_url ''ibuprofen'' then
          Inr (JObj [(''IdentifierList'', JObj [(''CID'', JArr [JNum 3672])])])
        else if url = molecular_weight_url ''3672'' then
          Inr (JObj [(''PropertyTable'',
                 JObj [(''Properties'',
                   JArr [JObj [(''CID'', JNum 3672), (''MolecularWeight'', JStr ''206.28'')]])])])
        else Inr (JObj [(''Fault'', JObj [(''Code'', JStr ''PUGREST.NotFound'')])])),
      json_of = Inr\<rparr>"

section \<open>Undersampling (toxicity notebook)\<close>

text \<open>
  \<^verbatim>\<open>
  severity_counts = df_tox_cleaned['Severity Class'].value_counts().sort_index()
  most_populated_class = severity_counts.idxmax()
  desired_size = 40
  balanced_df = pd.DataFrame()
  for severity_class, count in severity_counts.items():
      if severity_class == most_populated_class:
          undersampled_indices = df_tox_cleaned[df_tox_cleaned['Severity Class'] == severity_class
                                   ].sample(n=desired_size, random_state=42).index
      else:
          undersampled_indices = df_tox_cleaned[df_tox_cleaned['Severity Class'] == severity_class].index
      balanced_df = pd.concat([balanced_df, df_tox_cleaned.loc[undersampled_indices]])
  \<close>
  \<open>df_tox_cleaned\<close> has been through \<open>reset_index(drop=True)\<close>: its index labels are
  the positions \<open>0 .. len-1\<close>, so the cleaned frame is a list of rows and a label is a
  position in it. A frame cut out of it keeps the labels: a list of (label, row).
  A row carries the three columns the notebook names; the loop reads \<open>Severity Class\<close>
  only and copies rows whole.
\<close>

record row =
  Compound_Name :: string
  SMILES :: string
  Severity_Class :: int

type_synonym dataframe = "(nat \<times> row) list"

text \<open>The index of \<open>df[df['Severity Class'] == c]\<close>: the labels of the rows of class \<open>c\<close>.\<close>

definition class_index :: "row list \<Rightarrow> int \<Rightarrow> nat list" where
  "class_index df c = [i \<leftarrow> [0..<length df]. Severity_Class (df ! i) = c]"

text \<open>\<open>df.loc[labels]\<close> raises \<open>KeyError\<close> on a label the frame does not have.\<close>

definition loc :: "row list \<Rightarrow> nat list \<Rightarrow> pyexc + dataframe" where
  "loc df idx =
     (if list_all (\<lambda>i. i < length df) idx then Inr (map (\<lambda>i. (i, df ! i)) idx)
      else Inl KeyError)"

text \<open>
  \<open>value_counts().sort_index()\<close>: the classes that occur, in increasing order, each with
  its number of rows. \<open>idxmax\<close> is the first label with the largest count, and raises
  \<open>ValueError\<close> on an empty series.
\<close>

definition severity_counts :: "row list \<Rightarrow> (int \<times> nat) list" where
  "severity_counts df =
     map (\<lambda>c. (c, length (class_index df c))) (sort (remdups (map Severity_Class df)))"

fun idxmax :: "(int \<times> nat) list \<Rightarrow> pyexc + int" where
  "idxmax [] = Inl ValueError"
| "idxmax (first # rest) =
     Inr (fst (fold (\<lambda>entry best. if snd best < snd entry then entry else best) rest first))"

definition desired_size :: nat where
  "desired_size = 40"

text \<open>
  The loop, with \<open>balanced_df\<close> as accumulator. \<open>sample\<close> is pandas' and random: it is a
  parameter, \<open>sample labels n\<close> being the index of \<open>frame.sample(n=n, random_state=42)\<close>
  for a frame with these labels.
\<close>

fun undersampling_loop ::
  "(nat list \<Rightarrow> nat \<Rightarrow> pyexc + nat list) \<Rightarrow> row list \<Rightarrow> int \<Rightarrow> (int \<times> nat) list \<Rightarrow>
   dataframe \<Rightarrow> pyexc + dataframe" where
  "undersampling_loop sample df most_populated_class [] balanced_df = Inr balanced_df"
| "undersampling_loop sample df most_populated_class ((severity_class, count) # items) balanced_df =
     (case (if severity_class = most_populated_class
            then sample (class_index df severity_class) desired_size
            else Inr (class_index df severity_class)) of
        Inl e \<Rightarrow> Inl e
      | Inr undersampled_indices \<Rightarrow>
          (case loc df undersampled_indices of
             Inl e \<Rightarrow> Inl e
           | Inr rows \<Rightarrow>
               undersampling_loop sample df most_populated_class items (balanced_df @ rows)))"

definition undersample ::
  "(nat list \<Rightarrow> nat \<Rightarrow> pyexc + nat list) \<Rightarrow> row list \<Rightarrow> pyexc + dataframe" where
  "undersample sample df =
     (case idxmax (severity_counts df) of
        Inl e \<Rightarrow> Inl e
      | Inr most_populated_class \<Rightarrow>
          undersampling_loop sample df most_populated_class (severity_counts df) [])"

text \<open>
  What pandas documents for \<open>sample\<close> without replacement: \<open>n\<close> different rows of the
  frame, when the frame has that many.
\<close>

definition samples_without_replacement :: "(nat list \<Rightarrow> nat \<Rightarrow> pyexc + nat list) \<Rightarrow> bool" where
  "samples_without_replacement sample \<longleftrightarrow>
     (\<forall>idx n. distinct idx \<and> n \<le> length idx \<longrightarrow>
        (\<exists>ys. sample idx n = Inr ys \<and> distinct ys \<and> set ys \<subseteq> set idx \<and> length ys = n))"

text \<open>The rows of one class in a frame, for the theorems.\<close>

definition rows_of_class :: "int \<Rightarrow> dataframe \<Rightarrow> dataframe" where
  "rows_of_class c frame = [p \<leftarrow> frame. Severity_Class (snd p) = c]"

text \<open>
  A sampler and a frame for concrete runs: the sampler takes the first \<open>n\<close> labels; the
  frame has 41 rows of class 3 and one row each of classes 1 and 8.
\<close>

definition first_n :: "nat list \<Rightarrow> nat \<Rightarrow> pyexc + nat list" where
  "first_n idx n = (if n \<le> length idx then Inr (take n idx) else Inl ValueError)"

definition example_df :: "row list" where
  "example_df =
     replicate 41 \<lparr>Compound_Name = ''a'', SMILES = ''C'', Severity_Class = 3\<rparr> @
     [\<lparr>Compound_Name = ''b'', SMILES = ''CC'', Severity_Class = 1\<rparr>,
      \<lparr>Compound_Name = ''c'', SMILES = ''CCC'', Severity_Class = 8\<rparr>]"

section \<open>Theorems\<close>

subsection \<open>Rule of five\<close>

text \<open>
  What the code computes: the flag holds exactly when all five conditions hold, because
  a sum of five booleans exceeds 4 only when it is 5.
\<close>

lemma ro5_fulfilled_all_five:
  "ro5_fulfilled (calculate_ro5_properties D m) \<longleftrightarrow>
     ExactMolWt D m \<le> 500 \<and> NumHAcceptors D m \<le> 10 \<and> NumHDonors D m \<le> 5 \<and>
     MolLogP D m \<le> 5 \<and> TPSA D m < 140"
  by (simp add: calculate_ro5_properties_def conditions_def sum_bools_def of_bool_def)

text \<open>
  Claim C1: \<open>ro5_fulfilled\<close> is true exactly when at least 4 of the 5 rule-of-five
  conditions are satisfied. The comment in the function says the same (true if no more
  than one condition is violated), but the test \<open>sum(conditions) > 4\<close> asks for all five:
  hexadecane satisfies four conditions (all but \<open>logp <= 5\<close>) and is rejected.
\<close>

theorem ro5_four_of_five_rejected:
  "sum_bools (conditions hexadecane_descriptors hexadecane) = 4 \<and>
   ro5_fulfilled (calculate_ro5_properties hexadecane_descriptors hexadecane) = False"
  by (simp add: calculate_ro5_properties_def conditions_def sum_bools_def
      hexadecane_descriptors_def)

subsection \<open>Shape screening: the conformer loop\<close>


lemma align_conformers_append:
  "list_all (aligned L mol query) pre \<Longrightarrow>
   align_conformers L mol query (pre @ rest) scores =
   align_conformers L mol query rest (scores @ map (score L mol query) pre)"
  by (induction pre arbitrary: scores)
     (auto simp: aligned_def score_def split: sum.splits)

lemma align_conformers_ValueError:
  assumes "list_all (aligned L mol query) pre" and "GetO3A L mol query cid = Inl ValueError"
  shows "align_conformers L mol query (pre @ cid # rest) scores = Inr None"
  using assms by (simp add: align_conformers_append)

lemma align_conformers_None:
  "align_conformers L mol query cids scores = Inr None \<Longrightarrow>
   \<exists>pre cid rest. cids = pre @ cid # rest \<and> list_all (aligned L mol query) pre \<and>
      GetO3A L mol query cid = Inl ValueError"
proof (induction cids arbitrary: scores)
  case Nil
  then show ?case by simp
next
  case (Cons c cids)
  show ?case
  proof (cases "GetO3A L mol query c")
    case (Inl e)
    with Cons.prems have "e = ValueError" by (simp split: if_splits)
    with Inl have "c # cids = [] @ c # cids \<and> list_all (aligned L mol query) [] \<and>
      GetO3A L mol query c = Inl ValueError" by simp
    then show ?thesis by blast
  next
    case (Inr O3A)
    show ?thesis
    proof (cases "Align L O3A")
      case (Inl e)
      with Inr Cons.prems show ?thesis by simp
    next
      case (Inr s)
      with \<open>GetO3A L mol query c = Inr O3A\<close> Cons.prems
      have "align_conformers L mol query cids (scores @ [s]) = Inr None" by simp
      from Cons.IH [OF this] obtain pre cid rest where
        h: "cids = pre @ cid # rest" "list_all (aligned L mol query) pre"
           "GetO3A L mol query cid = Inl ValueError" by blast
      have "aligned L mol query c"
        using \<open>GetO3A L mol query c = Inr O3A\<close> Inr by (simp add: aligned_def)
      with h have "c # cids = (c # pre) @ cid # rest \<and> list_all (aligned L mol query) (c # pre) \<and>
        GetO3A L mol query cid = Inl ValueError" by simp
      then show ?thesis by blast
    qed
  qed
qed

lemma upt_split_at:
  assumes "[0..<n] = pre @ cid # rest"
  shows "cid < n \<and> pre = [0..<cid]"
proof -
  have len: "length pre < n" using arg_cong [OF assms, of length] by simp
  have "cid = [0..<n] ! length pre" using assms by simp
  with len have c: "cid = length pre" by simp
  have "pre = take (length pre) [0..<n]" using assms by simp
  with len have "pre = [0..<length pre]" by (simp add: take_upt)
  with c len show ?thesis by simp
qed

lemma align_conformers_upt_None_iff:
  "align_conformers L mol query [0..<n] [] = Inr None \<longleftrightarrow>
   (\<exists>cid<n. GetO3A L mol query cid = Inl ValueError \<and> list_all (aligned L mol query) [0..<cid])"
proof
  assume "align_conformers L mol query [0..<n] [] = Inr None"
  from align_conformers_None [OF this] obtain pre cid rest where
    h: "[0..<n] = pre @ cid # rest" "list_all (aligned L mol query) pre"
       "GetO3A L mol query cid = Inl ValueError" by blast
  from upt_split_at [OF h(1)] h(2,3)
  show "\<exists>cid<n. GetO3A L mol query cid = Inl ValueError \<and> list_all (aligned L mol query) [0..<cid]"
    by blast
next
  assume "\<exists>cid<n. GetO3A L mol query cid = Inl ValueError \<and> list_all (aligned L mol query) [0..<cid]"
  then obtain cid where h: "cid < n" "GetO3A L mol query cid = Inl ValueError"
    "list_all (aligned L mol query) [0..<cid]" by blast
  from h(1) have "[0..<n] = [0..<cid] @ cid # [Suc cid..<n]"
    by (metis le_add2 le_add_same_cancel2 less_imp_add_positive upt_add_eq_append upt_conv_Cons)
  then show "align_conformers L mol query [0..<n] [] = Inr None"
    using align_conformers_ValueError [OF h(3) h(2)] by simp
qed



lemma shape_similarity_append:
  "shape_similarity L q pre = Inr rs \<Longrightarrow>
   shape_similarity L q (pre @ post) =
     (case shape_similarity L q post of Inl e \<Rightarrow> Inl e | Inr ys \<Rightarrow> Inr (rs @ ys))"
  unfolding shape_similarity_def
  by (induction pre arbitrary: rs) (auto split: sum.splits)

lemma alignment_fails_None:
  assumes "embed_optimize L m k = Inr molH" and "alignment_fails L molH q cid"
  shows "embed_optimize_align_molecule L m q k = Inr None"
proof -
  from assms(2) have "\<exists>cid<GetNumConformers L molH. GetO3A L molH q cid = Inl ValueError \<and>
      list_all (aligned L molH q) [0..<cid]"
    unfolding alignment_fails_def by blast
  then have "align_conformers L molH q [0..<GetNumConformers L molH] [] = Inr None"
    by (simp only: align_conformers_upt_None_iff)
  with assms(1) show ?thesis by (simp add: embed_optimize_align_molecule_def)
qed

lemmas example_eval =
  shape_similarity_def embed_optimize_align_molecule_def embed_optimize_def
  example_rdkit_def np_min_def alignment_fails_def aligned_def score_def

lemma upt_2: "[0..<2] = [0, Suc 0]"
  by (simp add: upt_rec numeral_2_eq_2)

lemmas raising_eval =
  shape_similarity_def embed_optimize_align_molecule_def embed_optimize_def
  raising_rdkit_def np_min_def alignment_step_fails_def aligned_def

lemma alignment_fails_step:
  "alignment_fails L mol query cid \<Longrightarrow> alignment_step_fails L mol query cid"
  by (simp add: alignment_fails_def alignment_step_fails_def aligned_def)

text \<open>
  A molecule without conformers is no alignment failure, but it ends the pass as well:
  the loop body never runs and \<open>np.min\<close> raises on the empty list of scores.
\<close>

lemma zero_conformers_abort:
  "embed_optimize_align_molecule raising_rdkit 9 0 2 = Inl ValueError \<and>
   shape_similarity raising_rdkit 0 [3, 9, 4] = Inl ValueError"
  by (simp add: raising_eval upt_2)

text \<open>
  Claim C3 as stated (every candidate whose alignment step fails gets \<open>None\<close>, and the
  batch is never aborted by such a failure) does not hold. The \<open>try\<close> encloses the call
  of \<open>GetO3A\<close> only and catches \<open>ValueError\<close> only. With molecule 7 the alignment step
  fails in \<open>Align\<close>, with molecule 8 in \<open>GetO3A\<close> with another exception: each time the
  function raises instead of returning \<open>None\<close>, and the pass over a batch that holds the
  molecule ends with that exception, the records after it unscored.
\<close>

theorem alignment_failure_aborts_counterexample:
  "alignment_step_fails raising_rdkit 7 0 1 \<and>
   embed_optimize_align_molecule raising_rdkit 7 0 2 = Inl ValueError \<and>
   shape_similarity raising_rdkit 0 [3, 7, 4] = Inl ValueError \<and>
   alignment_step_fails raising_rdkit 8 0 0 \<and>
   embed_optimize_align_molecule raising_rdkit 8 0 2 = Inl OtherError \<and>
   shape_similarity raising_rdkit 0 [3, 8, 4] = Inl OtherError"
  by (simp add: raising_eval upt_2)

text \<open>
  Claim C3, amended: in a batch shape-screening pass, a candidate whose alignment fails
  with the exception the function guards against (\<open>GetO3A\<close> raises \<open>ValueError\<close> at a
  conformer the loop reaches) gets the sentinel \<open>None\<close>, and the pass goes on: once the
  records before it have been scored, the outcome of the pass is that of the remaining
  records, with \<open>None\<close> stored for the candidate.
\<close>

theorem alignment_failure_skipped:
  assumes "shape_similarity L query_h pre = Inr rs"
    and "embed_optimize L m 2 = Inr molH"
    and "alignment_fails L molH query_h cid"
  shows "embed_optimize_align_molecule L m query_h 2 = Inr None \<and>
         shape_similarity L query_h (pre @ m # post) =
           (case shape_similarity L query_h post of
              Inl e \<Rightarrow> Inl e
            | Inr ys \<Rightarrow> Inr (rs @ None # ys))"
proof -
  have none: "embed_optimize_align_molecule L m query_h 2 = Inr None"
    using assms(2,3) by (rule alignment_fails_None)
  have "shape_similarity L query_h (m # post) =
      (case shape_similarity L query_h post of Inl e \<Rightarrow> Inl e | Inr ys \<Rightarrow> Inr (None # ys))"
    using none by (simp add: shape_similarity_def)
  with shape_similarity_append [OF assms(1), of "m # post"] none show ?thesis
    by (simp split: sum.splits)
qed

theorem alignment_failure_skipped_witness:
  "shape_similarity example_rdkit 0 [3] = Inr [Some 3] \<and>
   embed_optimize example_rdkit 7 2 = Inr 7 \<and>
   alignment_fails example_rdkit 7 0 1 \<and>
   embed_optimize_align_molecule example_rdkit 7 0 2 = Inr None \<and>
   shape_similarity example_rdkit 0 ([3] @ 7 # [4]) = Inr [Some 3, None, Some 4]"
  using alignment_failure_skipped [of example_rdkit 0 "[3]" "[Some 3]" 7 7 1 "[4]"]
  by (simp add: example_eval upt_2)



subsection \<open>PubChem lookups\<close>

lemma getitem_0_not_ValueError: "getitem_0 v \<noteq> Inl ValueError"
  by (cases v) (auto split: list.splits)

lemma getitem_str_not_ValueError: "getitem_str v k \<noteq> Inl ValueError"
  by (cases v) (auto split: option.splits)

lemma and_then_ValueError:
  "and_then r f = Inl ValueError \<longleftrightarrow>
     r = Inl ValueError \<or> (\<exists>v. r = Inr v \<and> f v = Inl ValueError)"
  by (cases r) (simp_all add: and_then_def)

lemma cid_of_response_ValueError:
  "cid_of_response (JObj d) = Inl ValueError \<longleftrightarrow> ''IdentifierList'' \<notin> fst ` set d"
  by (simp add: cid_of_response_def and_then_ValueError getitem_0_not_ValueError
      getitem_str_not_ValueError del: getitem_str.simps)

lemma mol_weight_of_response_ValueError:
  "mol_weight_of_response (JObj d) = Inl ValueError \<longleftrightarrow> ''PropertyTable'' \<notin> fst ` set d"
  by (simp add: mol_weight_of_response_def and_then_ValueError getitem_0_not_ValueError
      getitem_str_not_ValueError del: getitem_str.simps)

lemma cid_of_response_first:
  assumes "map_of d ''IdentifierList'' = Some (JObj e)"
    and "map_of e ''CID'' = Some (JArr (x # xs))"
  shows "cid_of_response (JObj d) = Inr x"
proof -
  from assms(1) have "''IdentifierList'' \<in> fst ` set d"
    by (metis domI dom_map_of_conv_image_fst)
  with assms show ?thesis by (simp add: cid_of_response_def and_then_def)
qed

lemma mol_weight_of_response_first:
  assumes "map_of d ''PropertyTable'' = Some (JObj e)"
    and "map_of e ''Properties'' = Some (JArr (JObj p # ps))"
    and "map_of p ''MolecularWeight'' = Some w"
  shows "mol_weight_of_response (JObj d) = Inr w"
proof -
  from assms(1) have "''PropertyTable'' \<in> fst ` set d"
    by (metis domI dom_map_of_conv_image_fst)
  with assms show ?thesis by (simp add: mol_weight_of_response_def and_then_def)
qed

lemmas pubchem_eval =
  pubchem_def cid_by_name_def mol_weight_by_cid_def fetch_json_def and_then_def
  cid_of_response_def mol_weight_of_response_def cids_url_def molecular_weight_url_def

text \<open>
  Claim C8: a lookup by name or by CID raises \<open>ValueError\<close> exactly when the response
  lacks the expected result key, sends its request once whatever the outcome (no retry),
  and on success uses the first entry of the returned list. The theorem is about
  requests that are answered with a JSON object, the only kind of document with result
  keys; a request that fails, or a body that is no JSON, raises before the test.
\<close>

theorem pubchem_lookup_ValueError_no_retry:
  assumes "get W (cids_url name) n = Inr r" and "json_of W r = Inr (JObj d)"
    and "get W (molecular_weight_url cid) n' = Inr r'" and "json_of W r' = Inr (JObj d')"
  shows "(fst (cid_by_name W name n) = Inl ValueError \<longleftrightarrow> ''IdentifierList'' \<notin> fst ` set d) \<and>
         snd (cid_by_name W name n) = Suc n \<and>
         (\<forall>e x xs. map_of d ''IdentifierList'' = Some (JObj e) \<and>
                   map_of e ''CID'' = Some (JArr (x # xs)) \<longrightarrow>
                   fst (cid_by_name W name n) = Inr x) \<and>
         (fst (mol_weight_by_cid W cid n') = Inl ValueError \<longleftrightarrow>
            ''PropertyTable'' \<notin> fst ` set d') \<and>
         snd (mol_weight_by_cid W cid n') = Suc n' \<and>
         (\<forall>e p ps w. map_of d' ''PropertyTable'' = Some (JObj e) \<and>
                     map_of e ''Properties'' = Some (JArr (JObj p # ps)) \<and>
                     map_of p ''MolecularWeight'' = Some w \<longrightarrow>
                     fst (mol_weight_by_cid W cid n') = Inr w)"
proof -
  have c: "cid_by_name W name n = (cid_of_response (JObj d), Suc n)"
    using assms(1,2) by (simp add: cid_by_name_def fetch_json_def and_then_def)
  have m: "mol_weight_by_cid W cid n' = (mol_weight_of_response (JObj d'), Suc n')"
    using assms(3,4) by (simp add: mol_weight_by_cid_def fetch_json_def and_then_def)
  show ?thesis
    unfolding c m fst_conv snd_conv
    using cid_of_response_ValueError [of d] mol_weight_of_response_ValueError [of d']
      cid_of_response_first [of d] mol_weight_of_response_first [of d']
    by blast
qed

theorem pubchem_lookup_ValueError_no_retry_witness:
  "get pubchem (cids_url ''ibuprofen'') 0 =
     Inr (JObj [(''IdentifierList'', JObj [(''CID'', JArr [JNum 3672])])]) \<and>
   get pubchem (molecular_weight_url ''0'') 1 =
     Inr (JObj [(''Fault'', JObj [(''Code'', JStr ''PUGREST.NotFound'')])]) \<and>
   cid_by_name pubchem ''ibuprofen'' 0 = (Inr (JNum 3672), 1) \<and>
   mol_weight_by_cid pubchem ''0'' 1 = (Inl ValueError, 2)"
  using pubchem_lookup_ValueError_no_retry [of pubchem "''ibuprofen''" 0
      "JObj [(''IdentifierList'', JObj [(''CID'', JArr [JNum 3672])])]"
      "[(''IdentifierList'', JObj [(''CID'', JArr [JNum 3672])])]"
      "''0''" 1 "JObj [(''Fault'', JObj [(''Code'', JStr ''PUGREST.NotFound'')])]"
      "[(''Fault'', JObj [(''Code'', JStr ''PUGREST.NotFound'')])]"]
  by (simp add: pubchem_eval)

subsection \<open>Undersampling\<close>

lemma class_index_member:
  "i \<in> set (class_index df c) \<longleftrightarrow> i < length df \<and> Severity_Class (df ! i) = c"
  by (auto simp: class_index_def)

lemma distinct_class_index: "distinct (class_index df c)"
  by (simp add: class_index_def)

lemma class_index_empty: "c \<notin> Severity_Class ` set df \<Longrightarrow> class_index df c = []"
  by (auto simp: class_index_def filter_empty_conv)

lemma loc_class_rows:
  assumes "set idx \<subseteq> set (class_index df c)"
  shows "loc df idx = Inr (map (\<lambda>i. (i, df ! i)) idx)"
proof -
  from assms have "list_all (\<lambda>i. i < length df) idx"
    by (auto simp: list_all_iff class_index_member)
  then show ?thesis by (simp add: loc_def)
qed

lemma undersampling_loop_run:
  assumes "sample (class_index df m) desired_size = Inr ys"
    and "set ys \<subseteq> set (class_index df m)"
  shows "undersampling_loop sample df m items acc =
    Inr (acc @ concat (map (\<lambda>(c, n). map (\<lambda>i. (i, df ! i))
           (if c = m then ys else class_index df c)) items))"
proof (induction items arbitrary: acc)
  case Nil
  show ?case by simp
next
  case (Cons item items)
  obtain c n where item: "item = (c, n)" by (cases item)
  show ?case
  proof (cases "c = m")
    case True
    with assms item Cons.IH loc_class_rows [OF assms(2)] show ?thesis by simp
  next
    case False
    have "loc df (class_index df c) = Inr (map (\<lambda>i. (i, df ! i)) (class_index df c))"
      by (rule loc_class_rows [of _ df c]) simp
    with False item Cons.IH show ?thesis by simp
  qed
qed

lemma rows_of_class_chunk:
  assumes "set idx \<subseteq> set (class_index df c)"
  shows "rows_of_class c' (map (\<lambda>i. (i, df ! i)) idx) =
    (if c' = c then map (\<lambda>i. (i, df ! i)) idx else [])"
proof -
  have "\<forall>i \<in> set idx. Severity_Class (df ! i) = c"
    using assms by (auto simp: class_index_member)
  then show ?thesis
    by (auto simp: rows_of_class_def filter_map o_def filter_empty_conv filter_id_conv)
qed

lemma rows_of_class_append:
  "rows_of_class c (xs @ ys) = rows_of_class c xs @ rows_of_class c ys"
  by (simp add: rows_of_class_def)

lemma rows_of_class_chunks:
  assumes "\<And>c. set (sel c) \<subseteq> set (class_index df c)"
    and "distinct (map fst items)"
  shows "rows_of_class c' (concat (map (\<lambda>(c, n). map (\<lambda>i. (i, df ! i)) (sel c)) items)) =
    (if c' \<in> fst ` set items then map (\<lambda>i. (i, df ! i)) (sel c') else [])"
  using assms(2)
proof (induction items)
  case Nil
  show ?case by (simp add: rows_of_class_def)
next
  case (Cons item items)
  obtain c n where item: "item = (c, n)" by (cases item)
  from Cons.prems item have notin: "c \<notin> fst ` set items" and d: "distinct (map fst items)"
    by auto
  from Cons.IH [OF d] item notin rows_of_class_chunk [OF assms(1), of c' c]
  show ?case by (auto simp: rows_of_class_append)
qed

lemma in_concat_chunks:
  "(i, r) \<in> set (concat (map (\<lambda>(c, n). map (\<lambda>i. (i, df ! i)) (sel c)) items)) \<Longrightarrow>
   \<exists>c. i \<in> set (sel c) \<and> r = df ! i"
  by (induction items) auto

lemma fold_best:
  "fold (\<lambda>entry best. if snd best < snd entry then entry else best) rest (first :: int \<times> nat)
     \<in> set (first # rest) \<and>
   (\<forall>e \<in> set (first # rest).
      snd e \<le> snd (fold (\<lambda>entry best. if snd best < snd entry then entry else best) rest first))"
proof (induction rest arbitrary: first)
  case Nil
  show ?case by simp
next
  case (Cons x rest)
  show ?case
    using Cons.IH [of x] Cons.IH [of first] by (auto simp: not_less intro: order_trans)
qed

lemma idxmax_most_populated:
  assumes "idxmax items = Inr m"
  shows "\<exists>k. (m, k) \<in> set items \<and> (\<forall>e \<in> set items. snd e \<le> k)"
proof (cases items)
  case Nil
  with assms show ?thesis by simp
next
  case (Cons first rest)
  let ?best = "fold (\<lambda>entry best. if snd best < snd entry then entry else best) rest first"
  from assms Cons have m: "m = fst ?best" by simp
  from fold_best [of rest first] Cons
  have "?best \<in> set items" and "\<forall>e \<in> set items. snd e \<le> snd ?best" by simp_all
  with m have "(m, snd ?best) \<in> set items \<and> (\<forall>e \<in> set items. snd e \<le> snd ?best)" by simp
  then show ?thesis by blast
qed

lemma severity_counts_keys: "fst ` set (severity_counts df) = Severity_Class ` set df"
  by (auto simp: severity_counts_def image_iff)

lemma distinct_severity_counts: "distinct (map fst (severity_counts df))"
  by (simp add: severity_counts_def o_def)

lemma severity_counts_entry:
  "(c, k) \<in> set (severity_counts df) \<Longrightarrow> k = length (class_index df c)"
  by (auto simp: severity_counts_def)

lemma idxmax_severity_counts:
  assumes "idxmax (severity_counts df) = Inr m"
  shows "m \<in> Severity_Class ` set df \<and>
         (\<forall>c. length (class_index df c) \<le> length (class_index df m))"
proof -
  from idxmax_most_populated [OF assms] obtain k where
    k: "(m, k) \<in> set (severity_counts df)" and mx: "\<forall>e \<in> set (severity_counts df). snd e \<le> k"
    by blast
  from k have km: "k = length (class_index df m)" by (rule severity_counts_entry)
  from k have "m \<in> fst ` set (severity_counts df)" by force
  then have mem: "m \<in> Severity_Class ` set df" by (simp only: severity_counts_keys)
  have "length (class_index df c) \<le> length (class_index df m)" for c
  proof (cases "c \<in> Severity_Class ` set df")
    case True
    then have "(c, length (class_index df c)) \<in> set (severity_counts df)"
      by (auto simp: severity_counts_def)
    with mx km show ?thesis by force
  next
    case False
    then show ?thesis by (simp add: class_index_empty)
  qed
  with mem show ?thesis by blast
qed

text \<open>
  Claim C10: when the most populated class has at least \<open>desired_size\<close> (40) rows, the
  undersampling step succeeds and, in the balanced frame, every other class keeps all of
  its rows unchanged, the most populated class has exactly 40 rows (with 40 different
  labels), and every row is a row of the cleaned frame under its own label. The class
  that \<open>idxmax\<close> picks is a largest one.
\<close>

theorem undersampling_balanced:
  assumes "samples_without_replacement sample"
    and "idxmax (severity_counts df) = Inr most_populated_class"
    and "desired_size \<le> length (class_index df most_populated_class)"
  shows "\<exists>balanced_df. undersample sample df = Inr balanced_df \<and>
      (\<forall>c. c \<noteq> most_populated_class \<longrightarrow>
         rows_of_class c balanced_df = map (\<lambda>i. (i, df ! i)) (class_index df c)) \<and>
      length (rows_of_class most_populated_class balanced_df) = desired_size \<and>
      distinct (map fst (rows_of_class most_populated_class balanced_df)) \<and>
      (\<forall>(i, r) \<in> set balanced_df. i < length df \<and> r = df ! i) \<and>
      (\<forall>c. length (class_index df c) \<le> length (class_index df most_populated_class))"
proof -
  let ?m = most_populated_class
  from assms(1,3) distinct_class_index [of df ?m] obtain ys where
    ys: "sample (class_index df ?m) desired_size = Inr ys" and dist: "distinct ys"
    and sub: "set ys \<subseteq> set (class_index df ?m)" and len: "length ys = desired_size"
    unfolding samples_without_replacement_def by blast
  let ?sel = "\<lambda>c. if c = ?m then ys else class_index df c"
  let ?balanced = "concat (map (\<lambda>(c, n). map (\<lambda>i. (i, df ! i)) (?sel c)) (severity_counts df))"
  have run: "undersample sample df = Inr ?balanced"
    using assms(2) undersampling_loop_run [of sample df ?m ys "severity_counts df" "[]", OF ys sub]
    by (simp add: undersample_def)
  have sel: "set (?sel c) \<subseteq> set (class_index df c)" for c
    using sub by simp
  have rows: "rows_of_class c ?balanced =
      (if c \<in> Severity_Class ` set df then map (\<lambda>i. (i, df ! i)) (?sel c) else [])" for c
    using rows_of_class_chunks [of ?sel df "severity_counts df" c, OF sel distinct_severity_counts]
    by (simp only: severity_counts_keys)
  from idxmax_severity_counts [OF assms(2)] have mem: "?m \<in> Severity_Class ` set df"
    and most: "\<forall>c. length (class_index df c) \<le> length (class_index df ?m)" by simp_all
  have others: "rows_of_class c ?balanced = map (\<lambda>i. (i, df ! i)) (class_index df c)"
    if "c \<noteq> ?m" for c
    using that rows [of c] by (simp add: class_index_empty)
  have sampled: "rows_of_class ?m ?balanced = map (\<lambda>i. (i, df ! i)) ys"
    using rows [of ?m] mem by simp
  have inside: "\<forall>(i, r) \<in> set ?balanced. i < length df \<and> r = df ! i"
  proof -
    have "i < length df \<and> r = df ! i" if "(i, r) \<in> set ?balanced" for i r
    proof -
      from in_concat_chunks [OF that] obtain c where "i \<in> set (?sel c)" and r: "r = df ! i"
        by blast
      with sel [of c] have "i \<in> set (class_index df c)" by blast
      with r show ?thesis by (simp add: class_index_member)
    qed
    then show ?thesis by blast
  qed
  have l: "length (rows_of_class ?m ?balanced) = desired_size"
    unfolding sampled using len by simp
  have d: "distinct (map fst (rows_of_class ?m ?balanced))"
    unfolding sampled using dist by (simp add: o_def)
  from others have o: "\<forall>c. c \<noteq> ?m \<longrightarrow>
      rows_of_class c ?balanced = map (\<lambda>i. (i, df ! i)) (class_index df c)"
    by blast
  from run o l d inside most show ?thesis by blast
qed

lemma first_n_samples: "samples_without_replacement first_n"
  unfolding samples_without_replacement_def first_n_def
  by (auto dest: in_set_takeD)

theorem undersampling_balanced_witness:
  "idxmax (severity_counts example_df) = Inr 3 \<and>
   desired_size \<le> length (class_index example_df 3) \<and>
   (\<exists>balanced_df. undersample first_n example_df = Inr balanced_df \<and>
      rows_of_class 1 balanced_df =
        [(41, \<lparr>Compound_Name = ''b'', SMILES = ''CC'', Severity_Class = 1\<rparr>)] \<and>
      length (rows_of_class 3 balanced_df) = 40)"
proof -
  have h1: "idxmax (severity_counts example_df) = Inr 3" by code_simp
  have h2: "desired_size \<le> length (class_index example_df 3)" by code_simp
  have c1: "map (\<lambda>i. (i, example_df ! i)) (class_index example_df 1) =
      [(41, \<lparr>Compound_Name = ''b'', SMILES = ''CC'', Severity_Class = 1\<rparr>)]" by code_simp
  from undersampling_balanced [OF first_n_samples h1 h2] obtain balanced_df where
    "undersample first_n example_df = Inr balanced_df"
    "\<forall>c. c \<noteq> 3 \<longrightarrow> rows_of_class c balanced_df = map (\<lambda>i. (i, example_df ! i)) (class_index example_df c)"
    "length (rows_of_class 3 balanced_df) = desired_size" by blast
  with c1 have "undersample first_n example_df = Inr balanced_df \<and>
      rows_of_class 1 balanced_df =
        [(41, \<lparr>Compound_Name = ''b'', SMILES = ''CC'', Severity_Class = 1\<rparr>)] \<and>
      length (rows_of_class 3 balanced_df) = 40"
    by (simp add: desired_size_def)
  with h1 h2 show ?thesis by blast
qed

end
